theory Spec2Isabelle
  imports Complex_Main "HOL-Library.AList"
begin

section \<open>The dispatcher master of lava-server\<close>

text \<open>
  A shallow embedding of \<^verbatim>\<open>lava_scheduler_app/management/commands/dispatcher-master.py\<close>:
  the control-socket handler \<^verbatim>\<open>Command.controler_socket\<close> with its helpers, one
  iteration of the log loop \<^verbatim>\<open>Command.logging_socket\<close>, the file-handler garbage
  collection of \<^verbatim>\<open>Command.handle\<close> and \<^verbatim>\<open>Command.export_definition\<close>.

  Calls to the logger are left out: they change nothing a property below reads.
  \<^verbatim>\<open>time.time()\<close> is the argument \<open>now\<close> of every function that reads the clock.
\<close>

subsection \<open>Python builtins\<close>

datatype py_error = IndexError | ValueError | TypeError | KeyError | DoesNotExist | YAMLError

text \<open>\<^verbatim>\<open>int(s)\<close> on a byte string: white space around an optional sign and at least
  one decimal digit; anything else raises ValueError (here \<open>None\<close>).\<close>

definition is_space :: "char \<Rightarrow> bool" where
  "is_space c = (c \<in> set [CHR '' '', CHR 0x09, CHR 0x0A, CHR 0x0B, CHR 0x0C, CHR 0x0D])"

definition strip :: "string \<Rightarrow> string" where
  "strip s = rev (dropWhile is_space (rev (dropWhile is_space s)))"

definition digit_val :: "char \<Rightarrow> nat option" where
  "digit_val c =
     (let n = (of_char c :: nat) in if 48 \<le> n \<and> n \<le> 57 then Some (n - 48) else None)"

fun digits_val :: "nat \<Rightarrow> string \<Rightarrow> nat option" where
  "digits_val acc [] = Some acc"
| "digits_val acc (c # cs) =
     (case digit_val c of None \<Rightarrow> None | Some d \<Rightarrow> digits_val (10 * acc + d) cs)"

definition py_int :: "string \<Rightarrow> int option" where
  "py_int s =
     (case strip s of
        [] \<Rightarrow> None
      | c # cs \<Rightarrow>
          if c = CHR ''-'' then
            (if cs = [] then None else map_option (\<lambda>n. - int n) (digits_val 0 cs))
          else if c = CHR ''+'' then
            (if cs = [] then None else map_option int (digits_val 0 cs))
          else map_option int (digits_val 0 (c # cs)))"

text \<open>\<^verbatim>\<open>str(n)\<close> of an integer: its decimal digits, with a minus sign when negative.\<close>

fun str_nat :: "nat \<Rightarrow> string" where
  "str_nat n =
     (if n < 10 then [''0123456789'' ! n]
      else str_nat (n div 10) @ [''0123456789'' ! (n mod 10)])"

declare str_nat.simps [simp del]

definition str_int :: "int \<Rightarrow> string" where
  "str_int i = (if i < 0 then CHR ''-'' # str_nat (nat (- i)) else str_nat (nat i))"

text \<open>\<^verbatim>\<open>os.path.join(a, b)\<close>, \<^verbatim>\<open>os.path.dirname(p)\<close> of posixpath and
  \<^verbatim>\<open>s.split('.')[0]\<close>.\<close>

definition path_join :: "string \<Rightarrow> string \<Rightarrow> string" where
  "path_join a b =
     (if b \<noteq> [] \<and> hd b = CHR ''/'' then b
      else if a = [] \<or> last a = CHR ''/'' then a @ b
      else a @ ''/'' @ b)"

definition dirname :: "string \<Rightarrow> string" where
  "dirname p =
     (let head = rev (dropWhile (\<lambda>c. c \<noteq> CHR ''/'') (rev p))
      in if head \<noteq> [] \<and> \<not> list_all (\<lambda>c. c = CHR ''/'') head
         then rev (dropWhile (\<lambda>c. c = CHR ''/'') (rev head)) else head)"

definition split_dot_0 :: "string \<Rightarrow> string" where
  "split_dot_0 s = takeWhile (\<lambda>c. c \<noteq> CHR ''.'') s"

subsection \<open>YAML values\<close>

text \<open>The values \<^verbatim>\<open>yaml.load\<close> returns; a mapping is an association list read with
  \<open>map_of\<close>. \<^verbatim>\<open>v[key]\<close> raises KeyError on a mapping without the key and TypeError on
  a value that is not a mapping.\<close>

datatype yaml =
    YNull
  | YBool bool
  | YInt int
  | YStr string
  | YList "yaml list"
  | YMap "(yaml \<times> yaml) list"

fun subscript :: "yaml \<Rightarrow> yaml \<Rightarrow> py_error + yaml" where
  "subscript (YMap kvs) k = (case map_of kvs k of None \<Rightarrow> Inl KeyError | Some v \<Rightarrow> Inr v)"
| "subscript _ k = Inl TypeError"

subsection \<open>The job store\<close>

datatype job_status = SUBMITTED | RUNNING | COMPLETE | INCOMPLETE | CANCELED | CANCELING

record Device =
  device_hostname :: string
  worker_host :: "string option"

record TestJob =
  id_of :: int
  status :: job_status
  is_pipeline :: bool
  actual_device :: "Device option"
  output_dir :: string
  definition_text :: string
  pipeline_compatibility :: int

type_synonym store = "TestJob list"

text \<open>\<^verbatim>\<open>TestJob.objects.get(id=job_id)\<close>: the row, or DoesNotExist.\<close>

definition objects_get :: "store \<Rightarrow> int \<Rightarrow> py_error + TestJob" where
  "objects_get rows job_id =
     (case find (\<lambda>j. id_of j = job_id) rows of None \<Rightarrow> Inl DoesNotExist | Some j \<Rightarrow> Inr j)"

text \<open>The filter of \<^verbatim>\<open>send_status\<close> and \<^verbatim>\<open>_cancel_slave_dispatcher_jobs\<close>:
  \<^verbatim>\<open>actual_device__worker_host__hostname=hostname, is_pipeline=True, status=RUNNING\<close>.\<close>

definition bound_to :: "string \<Rightarrow> TestJob \<Rightarrow> bool" where
  "bound_to hostname j =
     (case actual_device j of None \<Rightarrow> False | Some d \<Rightarrow> worker_host d = Some hostname)"

definition running_on :: "string \<Rightarrow> TestJob \<Rightarrow> bool" where
  "running_on hostname j = (bound_to hostname j \<and> is_pipeline j \<and> status j = RUNNING)"

definition filter_running :: "store \<Rightarrow> string \<Rightarrow> TestJob list" where
  "filter_running rows hostname = filter (running_on hostname) rows"

text \<open>A call made inside \<^verbatim>\<open>with transaction.atomic()\<close>; a committed transaction is the
  list of its calls.\<close>

datatype db_call = CancelJob int | FailJob int string job_status | StartJob int

text \<open>The collaborators imported from \<^verbatim>\<open>lava_scheduler_app.dbutils\<close>,
  \<^verbatim>\<open>lava_results_app.dbutils\<close>, \<^verbatim>\<open>lzma\<close> and \<^verbatim>\<open>yaml\<close>: their code is not part of
  this file, so they are parameters. The job they act on is named by its id.\<close>

record extern =
  cancel_job :: "int \<Rightarrow> store \<Rightarrow> store"
  fail_job :: "int \<Rightarrow> string \<Rightarrow> job_status \<Rightarrow> store \<Rightarrow> store"
  start_job :: "int \<Rightarrow> store \<Rightarrow> store"
  parse_job_description :: "int \<Rightarrow> store \<Rightarrow> store"
  create_metadata_store :: "yaml \<Rightarrow> TestJob \<Rightarrow> string \<Rightarrow> string"
  map_scanned_results :: "yaml \<Rightarrow> TestJob \<Rightarrow> string \<Rightarrow> store \<Rightarrow> bool \<times> store"
  lzma_decompress :: "string \<Rightarrow> string option"
  yaml_load :: "string \<Rightarrow> yaml option"
  yaml_dump :: "yaml \<Rightarrow> string"

subsection \<open>Workers, log handlers and the state of the process\<close>

definition PROTOCOL_VERSION :: int where "PROTOCOL_VERSION = 1"
definition FD_TIMEOUT :: real where "FD_TIMEOUT = 60"
definition DISPATCHER_TIMEOUT :: real where "DISPATCHER_TIMEOUT = 3 * 10"

record SlaveDispatcher =
  hostname :: string
  last_msg :: real
  online :: bool

text \<open>\<^verbatim>\<open>SlaveDispatcher(hostname, online)\<close> and \<^verbatim>\<open>SlaveDispatcher.alive\<close>.\<close>

definition SlaveDispatcher_init :: "real \<Rightarrow> string \<Rightarrow> bool \<Rightarrow> SlaveDispatcher" where
  "SlaveDispatcher_init now h onl =
     \<lparr>hostname = h, last_msg = (if onl then now else 0), online = onl\<rparr>"

definition alive :: "real \<Rightarrow> SlaveDispatcher \<Rightarrow> SlaveDispatcher" where
  "alive now d = d\<lparr>last_msg := now\<rparr>"

text \<open>A file object is the path it was opened on; what is done to the file system is
  a trace of events, oldest first.\<close>

datatype fs_event =
    Mkdir string
  | Open string
  | OpenTruncate string
  | Write string string
  | Close string

record JobHandler =
  handler_output_dir :: string
  output_yaml :: string
  current_level :: string
  sub_log :: string
  last_usage :: real

text \<open>The state both threads work on. \<open>jobs\<close> is the local variable of
  \<^verbatim>\<open>logging_socket\<close>; \<open>self_jobs\<close>, \<open>self_current_level\<close> and \<open>dispatchers\<close> are
  attributes of the Command object; \<open>controler\<close> holds the messages sent on the control
  socket, oldest first.\<close>

record state =
  dispatchers :: "string \<rightharpoonup> SlaveDispatcher"
  self_jobs :: "(string \<times> JobHandler) list"
  self_current_level :: "string option"
  controler :: "string list list"
  db :: store
  txlog :: "db_call list list"
  fs :: "fs_event list"
  jobs :: "(string \<times> JobHandler) list"

text \<open>\<^verbatim>\<open>Command.__init__\<close>: both tables empty.\<close>

definition Command_init :: "store \<Rightarrow> state" where
  "Command_init rows =
     \<lparr>dispatchers = Map.empty, self_jobs = [], self_current_level = None, controler = [],
      db = rows, txlog = [], fs = [], jobs = []\<rparr>"

definition send_multipart :: "string list \<Rightarrow> state \<Rightarrow> state" where
  "send_multipart msg st = st\<lparr>controler := controler st @ [msg]\<rparr>"

subsection \<open>The control socket\<close>

definition send_status :: "string \<Rightarrow> state \<Rightarrow> state" where
  "send_status h st =
     foldl (\<lambda>s j. send_multipart [h, ''STATUS'', str_int (id_of j)] s) st
       (filter_running (db st) h)"

text \<open>\<^verbatim>\<open>self.dispatchers[hostname].alive()\<close>; the hostname is in the table wherever the
  source makes this call.\<close>

definition mark_alive :: "real \<Rightarrow> string \<Rightarrow> state \<Rightarrow> state" where
  "mark_alive now h st =
     (case dispatchers st h of
        None \<Rightarrow> st
      | Some d \<Rightarrow> st\<lparr>dispatchers := (dispatchers st)(h \<mapsto> alive now d)\<rparr>)"

definition dispatcher_alive :: "real \<Rightarrow> string \<Rightarrow> state \<Rightarrow> state" where
  "dispatcher_alive now h st =
     mark_alive now h
       (if h \<notin> dom (dispatchers st)
        then send_status h
               (st\<lparr>dispatchers := (dispatchers st)(h \<mapsto> SlaveDispatcher_init now h True)\<rparr>)
        else st)"

text \<open>\<^verbatim>\<open>_cancel_slave_dispatcher_jobs\<close>: one transaction; the query is read before the
  first job is cancelled.\<close>

definition cancel_slave_dispatcher_jobs :: "extern \<Rightarrow> string \<Rightarrow> state \<Rightarrow> state" where
  "cancel_slave_dispatcher_jobs E h st =
     (let js = filter_running (db st) h
      in st\<lparr>db := foldl (\<lambda>rows j. cancel_job E (id_of j) rows) (db st) js,
            txlog := txlog st @ [map (\<lambda>j. CancelJob (id_of j)) js]\<rparr>)"

text \<open>The first branch: HELLO and HELLO_RETRY. A missing or non-integer version frame
  and a version other than PROTOCOL_VERSION return False before anything is sent.\<close>

definition handle_hello ::
  "extern \<Rightarrow> real \<Rightarrow> string \<Rightarrow> string \<Rightarrow> string list \<Rightarrow> state \<Rightarrow> bool \<times> state" where
  "handle_hello E now h action args st =
     (case args of
        [] \<Rightarrow> (False, st)
      | v # _ \<Rightarrow>
          (case py_int v of
             None \<Rightarrow> (False, st)
           | Some slave_version \<Rightarrow>
               if slave_version \<noteq> PROTOCOL_VERSION then (False, st)
               else
                 let st1 = send_multipart [h, ''HELLO_OK''] st;
                     st2 = (if h \<in> dom (dispatchers st1) then st1
                            else st1\<lparr>dispatchers :=
                                   (dispatchers st1)(h \<mapsto> SlaveDispatcher_init now h True)\<rparr>);
                     st3 = (if action = ''HELLO'' then cancel_slave_dispatcher_jobs E h st2
                            else st2)
                 in (True, mark_alive now h st3)))"

text \<open>The body of the \<^verbatim>\<open>try\<close> of the END branch. The description is written to
  \<^verbatim>\<open>description.yaml\<close> (a failure to decompress is logged), the description is parsed,
  and one transaction routes a CANCELING job through \<^verbatim>\<open>cancel_job\<close> and then calls
  \<^verbatim>\<open>fail_job\<close>. DoesNotExist, from the first read or from the read inside the
  transaction, ends the block with nothing more done. The file system is taken to
  accept the write.\<close>

definition end_update ::
  "extern \<Rightarrow> int \<Rightarrow> job_status \<Rightarrow> string \<Rightarrow> string \<Rightarrow> state \<Rightarrow> state" where
  "end_update E job_id new_status error_msg description st =
     (case objects_get (db st) job_id of
        Inl _ \<Rightarrow> st
      | Inr job \<Rightarrow>
          let filename = path_join (output_dir job) ''description.yaml'';
              written = (case lzma_decompress E description of
                           None \<Rightarrow> [] | Some text \<Rightarrow> [Write filename text]);
              st1 = st\<lparr>fs := fs st @ [OpenTruncate filename] @ written @ [Close filename]\<rparr>;
              st2 = st1\<lparr>db := parse_job_description E job_id (db st1)\<rparr>
          in (case objects_get (db st2) job_id of
                Inl _ \<Rightarrow> st2
              | Inr locked \<Rightarrow>
                  let canceling = (status locked = CANCELING);
                      rows1 = (if canceling then cancel_job E job_id (db st2) else db st2);
                      rows2 = fail_job E job_id error_msg new_status rows1
                  in st2\<lparr>db := rows2,
                         txlog := txlog st2 @
                           [(if canceling then [CancelJob job_id] else []) @
                            [FailJob job_id error_msg new_status]]\<rparr>))"

definition handle_end ::
  "extern \<Rightarrow> real \<Rightarrow> string \<Rightarrow> string list \<Rightarrow> state \<Rightarrow> bool \<times> state" where
  "handle_end E now h args st =
     (case args of
        a # b # error_msg # description # _ \<Rightarrow>
          (case py_int a of
             None \<Rightarrow> (False, st)
           | Some job_id \<Rightarrow>
               (case py_int b of
                  None \<Rightarrow> (False, st)
                | Some job_status \<Rightarrow>
                    let new_status = (if job_status \<noteq> 0 then INCOMPLETE else COMPLETE);
                        st1 = end_update E job_id new_status error_msg description st;
                        st2 = send_multipart [h, ''END_OK'', str_int job_id] st1
                    in (True, dispatcher_alive now h st2)))
      | _ \<Rightarrow> (False, st))"

definition handle_start_ok ::
  "extern \<Rightarrow> real \<Rightarrow> string \<Rightarrow> string list \<Rightarrow> state \<Rightarrow> bool \<times> state" where
  "handle_start_ok E now h args st =
     (case args of
        [] \<Rightarrow> (False, st)
      | a # _ \<Rightarrow>
          (case py_int a of
             None \<Rightarrow> (False, st)
           | Some job_id \<Rightarrow>
               let st1 = (case objects_get (db st) job_id of
                            Inl _ \<Rightarrow> st
                          | Inr job \<Rightarrow>
                              st\<lparr>db := start_job E job_id (db st),
                                 txlog := txlog st @ [[StartJob job_id]]\<rparr>)
               in (True, dispatcher_alive now h st1)))"

text \<open>\<^verbatim>\<open>controler_socket\<close> on the message received: \<^verbatim>\<open>msg[0]\<close> is the worker's
  hostname, \<^verbatim>\<open>msg[1]\<close> the action. The result is the handler's return value and the
  new state; a message of fewer than two frames raises IndexError.\<close>

fun controler_socket ::
  "extern \<Rightarrow> real \<Rightarrow> string list \<Rightarrow> state \<Rightarrow> py_error + bool \<times> state" where
  "controler_socket E now (h # action # args) st =
     Inr (if action = ''HELLO'' \<or> action = ''HELLO_RETRY'' then
            handle_hello E now h action args st
          else if action = ''PING'' then
            (True, dispatcher_alive now h (send_multipart [h, ''PONG''] st))
          else if action = ''END'' then handle_end E now h args st
          else if action = ''START_OK'' then handle_start_ok E now h args st
          else (True, st))"
| "controler_socket E now _ st = Inl IndexError"

subsection \<open>The log socket\<close>

definition sub_filename :: "string \<Rightarrow> string \<Rightarrow> string \<Rightarrow> string" where
  "sub_filename dir level name =
     path_join (path_join (path_join dir ''pipeline'') (split_dot_0 level))
       (level @ ''-'' @ name @ ''.yaml'')"

text \<open>\<^verbatim>\<open>JobHandler(job, level, filename)\<close> opens both files for appending;
  \<^verbatim>\<open>JobHandler.write\<close> writes the message and a newline to each;
  \<^verbatim>\<open>JobHandler.close\<close> closes both.\<close>

definition JobHandler_init :: "real \<Rightarrow> TestJob \<Rightarrow> string \<Rightarrow> string \<Rightarrow> JobHandler" where
  "JobHandler_init now job level filename =
     \<lparr>handler_output_dir = output_dir job,
      output_yaml = path_join (output_dir job) ''output.yaml'',
      current_level = level, sub_log = filename, last_usage = now\<rparr>"

definition handler_write :: "JobHandler \<Rightarrow> string \<Rightarrow> fs_event list" where
  "handler_write h message =
     [Write (output_yaml h) message, Write (output_yaml h) [CHR 0x0A],
      Write (sub_log h) message, Write (sub_log h) [CHR 0x0A]]"

definition handler_close :: "JobHandler \<Rightarrow> fs_event list" where
  "handler_close h = [Close (output_yaml h), Close (sub_log h)]"

text \<open>\<^verbatim>\<open>TestJob.objects.get(id=job_id)\<close> with the frame's text as the id: the
  integer field converts it with \<^verbatim>\<open>int\<close>, which raises ValueError on other text.\<close>

definition objects_get_str :: "store \<Rightarrow> string \<Rightarrow> py_error + TestJob" where
  "objects_get_str rows s =
     (case py_int s of None \<Rightarrow> Inl ValueError | Some i \<Rightarrow> objects_get rows i)"

text \<open>Lines 250 to 275: find the handler. \<open>Inr None\<close> is the \<^verbatim>\<open>continue\<close> of an unknown
  job; \<open>Inl\<close> an exception nothing catches. On a new level the source assigns
  \<^verbatim>\<open>self.current_level\<close>, an attribute of the Command object.\<close>

definition find_handler ::
  "real \<Rightarrow> string \<Rightarrow> string \<Rightarrow> string \<Rightarrow> state \<Rightarrow> py_error + state option" where
  "find_handler now job_id level name st =
     (case map_of (jobs st) job_id of
        Some h \<Rightarrow>
          if level \<noteq> current_level h then
            let filename = sub_filename (handler_output_dir h) level name
            in Inr (Some (st\<lparr>fs := fs st @
                               [Close (sub_log h), Mkdir (dirname filename), Open filename],
                             self_current_level := Some level,
                             jobs := AList.update job_id (h\<lparr>sub_log := filename\<rparr>) (jobs st)\<rparr>))
          else Inr (Some st)
      | None \<Rightarrow>
          (case objects_get_str (db st) job_id of
             Inl e \<Rightarrow> if e = DoesNotExist then Inr None else Inl e
           | Inr job \<Rightarrow>
               let filename = sub_filename (output_dir job) level name;
                   h = JobHandler_init now job level filename
               in Inr (Some (st\<lparr>fs := fs st @
                                  [Mkdir (dirname filename), Open (output_yaml h), Open filename],
                                jobs := AList.update job_id h (jobs st)\<rparr>))))"

text \<open>Lines 277 to 288: a record of level "results" is mapped into the store.\<close>

definition map_results ::
  "extern \<Rightarrow> string \<Rightarrow> string \<Rightarrow> yaml \<Rightarrow> yaml \<Rightarrow> state \<Rightarrow> py_error + state option" where
  "map_results E job_id level message_lvl message_msg st =
     (if message_lvl = YStr ''results'' then
        (case objects_get_str (db st) job_id of
           Inl e \<Rightarrow> if e = DoesNotExist then Inr None else Inl e
         | Inr job \<Rightarrow>
             let meta_filename = create_metadata_store E message_msg job level;
                 ret = map_scanned_results E message_msg job meta_filename (db st)
             in Inr (Some (st\<lparr>db := snd ret\<rparr>)))
      else Inr (Some st))"

text \<open>Lines 290 to 298: mark the handler as used and write the record.\<close>

definition write_record :: "real \<Rightarrow> string \<Rightarrow> string \<Rightarrow> state \<Rightarrow> py_error + state" where
  "write_record now job_id message st =
     (case map_of (jobs st) job_id of
        None \<Rightarrow> Inl KeyError
      | Some h \<Rightarrow>
          Inr (st\<lparr>jobs := AList.update job_id (h\<lparr>last_usage := now\<rparr>) (jobs st),
                 fs := fs st @ handler_write h (''- '' @ message)\<rparr>))"

text \<open>One pass of the loop of \<^verbatim>\<open>logging_socket\<close> on a message received. \<open>Inr\<close> is the
  state when the pass ends (by \<^verbatim>\<open>continue\<close> or at the end of the body), \<open>Inl\<close> an
  exception that leaves the loop.\<close>

definition logging_socket :: "extern \<Rightarrow> real \<Rightarrow> string list \<Rightarrow> state \<Rightarrow> py_error + state" where
  "logging_socket E now msg st =
     (case msg of
        [job_id, level, name, message] \<Rightarrow>
          (case yaml_load E message of
             None \<Rightarrow> Inr st
           | Some scanned \<Rightarrow>
               (case subscript scanned (YStr ''lvl'') of
                  Inl e \<Rightarrow> if e = KeyError then Inr st else Inl e
                | Inr message_lvl \<Rightarrow>
                    (case subscript scanned (YStr ''msg'') of
                       Inl e \<Rightarrow> if e = KeyError then Inr st else Inl e
                     | Inr message_msg \<Rightarrow>
                         if CHR ''/'' \<in> set level \<or> CHR ''/'' \<in> set name then Inr st
                         else
                           (case find_handler now job_id level name st of
                              Inl e \<Rightarrow> Inl e
                            | Inr None \<Rightarrow> Inr st
                            | Inr (Some st1) \<Rightarrow>
                                (case map_results E job_id level message_lvl message_msg st1 of
                                   Inl e \<Rightarrow> Inl e
                                 | Inr None \<Rightarrow> Inr st1
                                 | Inr (Some st2) \<Rightarrow> write_record now job_id message st2)))))
      | _ \<Rightarrow> Inr st)"

subsection \<open>The main loop's garbage collection and \<^verbatim>\<open>export_definition\<close>\<close>

text \<open>Lines 684 to 690 of \<^verbatim>\<open>handle\<close>: every handler of \<^verbatim>\<open>self.jobs\<close> idle for more
  than FD_TIMEOUT seconds is closed and deleted.\<close>

definition gc_one :: "real \<Rightarrow> state \<Rightarrow> string \<Rightarrow> state" where
  "gc_one now st job_id =
     (case map_of (self_jobs st) job_id of
        None \<Rightarrow> st
      | Some h \<Rightarrow>
          if now - last_usage h > FD_TIMEOUT
          then st\<lparr>fs := fs st @ handler_close h,
                 self_jobs := AList.delete job_id (self_jobs st)\<rparr>
          else st)"

definition gc_file_handlers :: "real \<Rightarrow> state \<Rightarrow> state" where
  "gc_file_handlers now st = foldl (gc_one now) st (map fst (self_jobs st))"

text \<open>Lines 697 to 702: a worker silent for more than DISPATCHER_TIMEOUT goes offline.\<close>

definition check_dispatchers :: "real \<Rightarrow> state \<Rightarrow> state" where
  "check_dispatchers now st =
     st\<lparr>dispatchers := (\<lambda>h.
          map_option
            (\<lambda>d. if online d \<and> now - last_msg d > DISPATCHER_TIMEOUT
                 then d\<lparr>online := False\<rparr> else d)
            (dispatchers st h))\<rparr>"

text \<open>One pass of the main loop up to the check of the workers: the garbage
  collection, the message on the control socket when there is one (a handler that
  returns False skips the rest of the pass), the check. The sweep of the job queue
  that follows (\<^verbatim>\<open>process_jobs\<close>, \<^verbatim>\<open>handle_canceling\<close>) is not part of this model.\<close>

definition main_pass ::
  "extern \<Rightarrow> real \<Rightarrow> string list option \<Rightarrow> state \<Rightarrow> py_error + state" where
  "main_pass E now received st =
     (let st1 = gc_file_handlers now st
      in case received of
           None \<Rightarrow> Inr (check_dispatchers now st1)
         | Some msg \<Rightarrow>
             (case controler_socket E now msg st1 of
                Inl e \<Rightarrow> Inl e
              | Inr r \<Rightarrow> if fst r then Inr (check_dispatchers now (snd r)) else Inr (snd r)))"


subsection \<open>Reading the control socket's output\<close>

text \<open>The STATUS messages \<^verbatim>\<open>send_status\<close> sends for the rows of a store, the messages
  sent between two states, and those of them that carry a given action.\<close>

definition status_msgs :: "store \<Rightarrow> string \<Rightarrow> string list list" where
  "status_msgs rows h = map (\<lambda>j. [h, ''STATUS'', str_int (id_of j)]) (filter_running rows h)"

definition sent_since :: "state \<Rightarrow> state \<Rightarrow> string list list" where
  "sent_since st st' = drop (length (controler st)) (controler st')"

definition with_action :: "string \<Rightarrow> string list list \<Rightarrow> string list list" where
  "with_action verb msgs = filter (\<lambda>m. take 1 (drop 1 m) = [verb]) msgs"

subsection \<open>Reading the log loop's output\<close>

text \<open>The data written by a trace of events, and what lines 252 to 260 do to a handler
  that exists: the handler afterwards and the events of the change of level.\<close>

fun written :: "fs_event list \<Rightarrow> (string \<times> string) list" where
  "written [] = []"
| "written (Write p s # es) = (p, s) # written es"
| "written (e # es) = written es"

definition rotated :: "string \<Rightarrow> string \<Rightarrow> JobHandler \<Rightarrow> JobHandler" where
  "rotated level name h =
     (if level \<noteq> current_level h
      then h\<lparr>sub_log := sub_filename (handler_output_dir h) level name\<rparr> else h)"

definition rotation :: "string \<Rightarrow> string \<Rightarrow> JobHandler \<Rightarrow> fs_event list" where
  "rotation level name h =
     (if level \<noteq> current_level h
      then [Close (sub_log h), Mkdir (dirname (sub_filename (handler_output_dir h) level name)),
            Open (sub_filename (handler_output_dir h) level name)]
      else [])"

subsection \<open>Sample collaborators and rows for the concrete checks\<close>

definition set_status :: "job_status \<Rightarrow> int \<Rightarrow> store \<Rightarrow> store" where
  "set_status s i rows = map (\<lambda>j. if id_of j = i then j\<lparr>status := s\<rparr> else j) rows"

definition sample_load :: "string \<Rightarrow> yaml option" where
  "sample_load s =
     (if s = ''{lvl: info, msg: a}''
        then Some (YMap [(YStr ''lvl'', YStr ''info''), (YStr ''msg'', YStr ''a'')])
      else if s = ''{lvl: results, msg: a}''
        then Some (YMap [(YStr ''lvl'', YStr ''results''), (YStr ''msg'', YStr ''a'')])
      else if s = ''[1, 2]'' then Some (YList [YInt 1, YInt 2])
      else if s = ''{}'' then Some (YMap [])
      else None)"

definition sample_extern :: extern where
  "sample_extern =
     \<lparr>cancel_job = set_status CANCELED,
      fail_job = (\<lambda>i msg s. set_status s i),
      start_job = set_status RUNNING,
      parse_job_description = (\<lambda>i rows. rows),
      create_metadata_store = (\<lambda>msg job level. ''meta.yaml''),
      map_scanned_results = (\<lambda>msg job meta rows. (True, rows)),
      lzma_decompress = Some,
      yaml_load = sample_load,
      yaml_dump = (\<lambda>v. ''{}'')\<rparr>"

definition sample_job :: "int \<Rightarrow> job_status \<Rightarrow> TestJob" where
  "sample_job i s =
     \<lparr>id_of = i, status = s, is_pipeline = True,
      actual_device = Some \<lparr>device_hostname = ''qemu01'', worker_host = Some ''w1''\<rparr>,
      output_dir = ''/o'', definition_text = ''{}'', pipeline_compatibility = 3\<rparr>"

text \<open>The handler of job 1 after a first record of level 1.2, and a state that holds it
  while the store has no such job any more.\<close>

definition sample_handler :: JobHandler where
  "sample_handler =
     \<lparr>handler_output_dir = ''/o'', output_yaml = ''/o/output.yaml'', current_level = ''1.2'',
      sub_log = ''/o/pipeline/1/1.2-foo.yaml'', last_usage = 0\<rparr>"

definition sample_logging :: state where
  "sample_logging = (Command_init [])\<lparr>jobs := [(''1'', sample_handler)]\<rparr>"

subsection \<open>A serialiser that loads what it dumps\<close>

text \<open>A stand-in for the YAML library where a concrete check needs one whose \<^verbatim>\<open>load\<close>
  gives back what \<^verbatim>\<open>dump\<close> was given: a prefix code with lengths in unary, read back
  by a recursive descent whose fuel is the length of the text.\<close>

definition unary :: "nat \<Rightarrow> string" where
  "unary n = replicate n (CHR ''I'') @ ''.''"

definition read_unary :: "string \<Rightarrow> (nat \<times> string) option" where
  "read_unary s =
     (case dropWhile (\<lambda>c. c = CHR ''I'') s of
        [] \<Rightarrow> None
      | c # r \<Rightarrow>
          if c = CHR ''.'' then Some (length (takeWhile (\<lambda>c. c = CHR ''I'') s), r) else None)"

fun flat :: "('a \<times> 'a) list \<Rightarrow> 'a list" where
  "flat [] = []"
| "flat ((k, v) # kvs) = k # v # flat kvs"

fun unflat :: "'a list \<Rightarrow> ('a \<times> 'a) list option" where
  "unflat [] = Some []"
| "unflat [k] = None"
| "unflat (k # v # r) = map_option ((#) (k, v)) (unflat r)"







section \<open>Properties\<close>

subsection \<open>Evaluation of the builtins on the literals used below\<close>

lemma py_int_0: "py_int ''0'' = Some 0"
  by (simp add: py_int_def strip_def is_space_def digit_val_def)

lemma py_int_1: "py_int ''1'' = Some 1"
  by (simp add: py_int_def strip_def is_space_def digit_val_def)

lemma py_int_2: "py_int ''2'' = Some 2"
  by (simp add: py_int_def strip_def is_space_def digit_val_def)

lemma py_int_7: "py_int ''7'' = Some 7"
  by (simp add: py_int_def strip_def is_space_def digit_val_def)

lemma str_int_1: "str_int 1 = ''1''"
  by (simp add: str_int_def str_nat.simps)

lemma str_int_7: "str_int 7 = ''7''"
  by (simp add: str_int_def str_nat.simps)

lemma Command_init_sel:
  "dispatchers (Command_init rows) = Map.empty" "self_jobs (Command_init rows) = []"
  "self_current_level (Command_init rows) = None" "controler (Command_init rows) = []"
  "db (Command_init rows) = rows" "txlog (Command_init rows) = []"
  "fs (Command_init rows) = []" "jobs (Command_init rows) = []"
  by (simp_all add: Command_init_def)

lemma sample_job_sel:
  "id_of (sample_job i s) = i" "status (sample_job i s) = s" "is_pipeline (sample_job i s)"
  "bound_to h (sample_job i s) = (h = ''w1'')" "output_dir (sample_job i s) = ''/o''"
  by (auto simp: sample_job_def bound_to_def)

subsection \<open>What the helpers of the control socket change\<close>

lemma foldl_send_multipart:
  "foldl (\<lambda>s j. send_multipart (f j) s) st js = st\<lparr>controler := controler st @ map f js\<rparr>"
  by (induction js arbitrary: st) (simp_all add: send_multipart_def)

lemma send_status_eq: "send_status h st = st\<lparr>controler := controler st @ status_msgs (db st) h\<rparr>"
  by (simp add: send_status_def status_msgs_def foldl_send_multipart)

lemma dispatcher_alive_known:
  "dispatchers st h = Some d \<Longrightarrow>
     dispatcher_alive now h st = st\<lparr>dispatchers := (dispatchers st)(h \<mapsto> d\<lparr>last_msg := now\<rparr>)\<rparr>"
  by (simp add: dispatcher_alive_def mark_alive_def alive_def dom_def)

lemma dispatcher_alive_unknown:
  "dispatchers st h = None \<Longrightarrow>
     dispatcher_alive now h st =
       st\<lparr>dispatchers := (dispatchers st)(h \<mapsto> \<lparr>hostname = h, last_msg = now, online = True\<rparr>),
          controler := controler st @ status_msgs (db st) h\<rparr>"
  by (simp add: dispatcher_alive_def mark_alive_def alive_def dom_def send_status_eq
      SlaveDispatcher_init_def)

lemma dispatcher_alive_frame [simp]:
  "db (dispatcher_alive now h st) = db st"
  "txlog (dispatcher_alive now h st) = txlog st"
  "fs (dispatcher_alive now h st) = fs st"
  "jobs (dispatcher_alive now h st) = jobs st"
  "self_jobs (dispatcher_alive now h st) = self_jobs st"
  by (cases "dispatchers st h"; simp add: dispatcher_alive_known dispatcher_alive_unknown)+

lemma dispatcher_alive_controler:
  "controler (dispatcher_alive now h st) =
     controler st @ (if h \<in> dom (dispatchers st) then [] else status_msgs (db st) h)"
  by (cases "dispatchers st h") (auto simp: dispatcher_alive_known dispatcher_alive_unknown)

lemma with_action_Nil: "with_action verb [] = []"
  by (simp add: with_action_def)

lemma with_action_Cons:
  "with_action verb (m # ms) =
     (if take 1 (drop 1 m) = [verb] then m # with_action verb ms else with_action verb ms)"
  by (simp add: with_action_def)

lemma with_action_append:
  "with_action verb (xs @ ys) = with_action verb xs @ with_action verb ys"
  by (simp add: with_action_def)

lemma with_action_status_msgs:
  "verb \<noteq> ''STATUS'' \<Longrightarrow> with_action verb (status_msgs rows h) = []"
  by (auto simp: with_action_def status_msgs_def filter_empty_conv)

lemma end_update_frame [simp]:
  "controler (end_update E j s m d st) = controler st"
  "dispatchers (end_update E j s m d st) = dispatchers st"
  by (simp_all add: end_update_def Let_def split: sum.splits)

lemma end_update_unknown: "objects_get (db st) j = Inl e \<Longrightarrow> end_update E j s m d st = st"
  by (simp add: end_update_def)

subsection \<open>END is always acknowledged\<close>

text \<open>
  C1. A well-formed END message (integer job id and exit code, then the error message
  and the description) makes the handler return True with exactly one END_OK message
  sent, addressed to the sender and carrying the job id, whether the job is in the store
  or not; for a job that is not in the store, the rows, the transactions and the files
  are left as they were.
\<close>

theorem end_replies_once:
  assumes "py_int a = Some job_id" and "py_int b = Some job_status"
  shows "\<exists>st'. controler_socket E now (h # ''END'' # a # b # error_msg # description # rest) st
                 = Inr (True, st') \<and>
           with_action ''END_OK'' (sent_since st st') = [[h, ''END_OK'', str_int job_id]] \<and>
           (objects_get (db st) job_id = Inl DoesNotExist \<longrightarrow>
              db st' = db st \<and> txlog st' = txlog st \<and> fs st' = fs st)"
  using assms
  by (simp add: handle_end_def Let_def sent_since_def dispatcher_alive_controler
      send_multipart_def with_action_append with_action_Cons with_action_Nil
      with_action_status_msgs end_update_unknown)

theorem end_replies_once_witness:
  "py_int ''7'' = Some 7 \<and> py_int ''0'' = Some 0 \<and>
   objects_get (db (Command_init [])) 7 = Inl DoesNotExist \<and>
   (\<exists>st'. controler_socket sample_extern 5 [''w1'', ''END'', ''7'', ''0'', [], []]
             (Command_init []) = Inr (True, st') \<and>
          with_action ''END_OK'' (sent_since (Command_init []) st') = [[''w1'', ''END_OK'', ''7'']] \<and>
          db st' = [] \<and> txlog st' = [] \<and> fs st' = [])"
proof -
  have unknown: "objects_get (db (Command_init [])) 7 = Inl DoesNotExist"
    by (simp add: Command_init_def objects_get_def)
  from end_replies_once [OF py_int_7 py_int_0, where E = sample_extern and now = 5
      and h = "''w1''" and error_msg = "[]" and description = "[]" and rest = "[]"
      and st = "Command_init []"]
  obtain st' where
    "controler_socket sample_extern 5 [''w1'', ''END'', ''7'', ''0'', [], []]
       (Command_init []) = Inr (True, st')"
    "with_action ''END_OK'' (sent_since (Command_init []) st') = [[''w1'', ''END_OK'', str_int 7]]"
    "db st' = db (Command_init [])" "txlog st' = txlog (Command_init [])"
    "fs st' = fs (Command_init [])"
    using unknown by blast
  then show ?thesis
    using unknown py_int_7 py_int_0 by (simp add: str_int_7 Command_init_def)
qed

subsection \<open>A HELLO of another protocol version is refused\<close>

text \<open>
  C2. A HELLO or HELLO_RETRY whose version frame reads as an integer other than
  PROTOCOL_VERSION makes the handler return False with the state as it was: nothing is
  sent, and the table of workers is unchanged (no entry added, no entry's online flag or
  last_msg touched).
\<close>

theorem hello_version_mismatch:
  assumes "action = ''HELLO'' \<or> action = ''HELLO_RETRY''"
    and "py_int v = Some n" and "n \<noteq> PROTOCOL_VERSION"
  shows "controler_socket E now (h # action # v # rest) st = Inr (False, st)"
  using assms by (auto simp: handle_hello_def)

theorem hello_version_mismatch_witness:
  "(''HELLO_RETRY'' = ''HELLO'' \<or> ''HELLO_RETRY'' = ''HELLO_RETRY'') \<and>
   py_int ''2'' = Some 2 \<and> 2 \<noteq> PROTOCOL_VERSION \<and>
   controler_socket sample_extern 5 [''w1'', ''HELLO_RETRY'', ''2'']
     (Command_init [sample_job 1 RUNNING]) = Inr (False, Command_init [sample_job 1 RUNNING])"
proof -
  have a: "''HELLO_RETRY'' = ''HELLO'' \<or> ''HELLO_RETRY'' = ''HELLO_RETRY''" by simp
  have c: "2 \<noteq> PROTOCOL_VERSION" by (simp add: PROTOCOL_VERSION_def)
  from hello_version_mismatch [OF a py_int_2 c] show ?thesis
    using a c py_int_2 by blast
qed

subsection \<open>HELLO cancels the worker's running jobs, HELLO_RETRY does not\<close>

lemma cancel_slave_dispatcher_jobs_frame [simp]:
  "controler (cancel_slave_dispatcher_jobs E h st) = controler st"
  "dispatchers (cancel_slave_dispatcher_jobs E h st) = dispatchers st"
  by (simp_all add: cancel_slave_dispatcher_jobs_def Let_def)

lemma mark_alive_frame [simp]:
  "db (mark_alive now h st) = db st"
  "txlog (mark_alive now h st) = txlog st"
  "controler (mark_alive now h st) = controler st"
  by (simp_all add: mark_alive_def split: option.splits)

text \<open>
  C3. A HELLO of the master's protocol version from worker \<open>h\<close> commits exactly one
  transaction, which calls \<^verbatim>\<open>cancel_job\<close> on every row that is RUNNING, is a pipeline job
  and has \<open>h\<close> as its device's worker host, and on no other; a HELLO_RETRY commits
  no transaction and leaves the rows as they are.
\<close>

theorem hello_cancels_hello_retry_does_not:
  assumes "py_int v = Some PROTOCOL_VERSION"
  shows "(\<exists>st'. controler_socket E now (h # ''HELLO'' # v # rest) st = Inr (True, st') \<and>
            txlog st' = txlog st @
              [map (\<lambda>j. CancelJob (id_of j))
                 (filter (\<lambda>j. bound_to h j \<and> is_pipeline j \<and> status j = RUNNING) (db st))] \<and>
            db st' = foldl (\<lambda>rows j. cancel_job E (id_of j) rows) (db st)
                       (filter (\<lambda>j. bound_to h j \<and> is_pipeline j \<and> status j = RUNNING) (db st))) \<and>
         (\<exists>st'. controler_socket E now (h # ''HELLO_RETRY'' # v # rest) st = Inr (True, st') \<and>
            txlog st' = txlog st \<and> db st' = db st)"
proof -
  have "filter_running (db st) h =
          filter (\<lambda>j. bound_to h j \<and> is_pipeline j \<and> status j = RUNNING) (db st)"
    unfolding filter_running_def by (rule filter_cong) (simp_all add: running_on_def)
  then show ?thesis
    using assms
    by (simp add: handle_hello_def Let_def send_multipart_def
        cancel_slave_dispatcher_jobs_def)
qed

theorem hello_cancels_hello_retry_does_not_witness:
  "py_int ''1'' = Some PROTOCOL_VERSION \<and>
   (\<exists>st'. controler_socket sample_extern 5 [''w1'', ''HELLO'', ''1'']
            (Command_init [sample_job 1 RUNNING, sample_job 2 SUBMITTED]) = Inr (True, st') \<and>
          txlog st' = [[CancelJob 1]] \<and>
          db st' = [sample_job 1 CANCELED, sample_job 2 SUBMITTED]) \<and>
   (\<exists>st'. controler_socket sample_extern 5 [''w1'', ''HELLO_RETRY'', ''1'']
            (Command_init [sample_job 1 RUNNING, sample_job 2 SUBMITTED]) = Inr (True, st') \<and>
          txlog st' = [] \<and>
          db st' = [sample_job 1 RUNNING, sample_job 2 SUBMITTED])"
proof -
  have v: "py_int ''1'' = Some PROTOCOL_VERSION"
    by (simp add: py_int_1 PROTOCOL_VERSION_def)
  have canc: "cancel_job sample_extern 1 [sample_job 1 RUNNING, sample_job 2 SUBMITTED]
                = [sample_job 1 CANCELED, sample_job 2 SUBMITTED]"
    by (simp add: sample_extern_def set_status_def sample_job_def)
  from hello_cancels_hello_retry_does_not [OF v, where E = sample_extern and now = 5
      and h = "''w1''" and rest = "[]"
      and st = "Command_init [sample_job 1 RUNNING, sample_job 2 SUBMITTED]"]
  show ?thesis
    using v by (simp add: Command_init_sel sample_job_sel canc)
qed

subsection \<open>A worker the master does not know\<close>

lemma with_action_STATUS: "with_action ''STATUS'' (status_msgs rows h) = status_msgs rows h"
  by (simp add: with_action_def status_msgs_def)

lemma ping_unknown:
  assumes "dispatchers st h = None"
  shows "\<exists>st'. controler_socket E now (h # ''PING'' # args) st = Inr (True, st') \<and>
           dispatchers st' h = Some \<lparr>hostname = h, last_msg = now, online = True\<rparr> \<and>
           with_action ''STATUS'' (sent_since st st') = status_msgs (db st') h"
  using assms
  by (simp add: dispatcher_alive_unknown send_multipart_def sent_since_def
      with_action_append with_action_Cons with_action_Nil with_action_STATUS)

lemma end_unknown:
  assumes "dispatchers st h = None" "py_int a = Some i" "py_int b = Some c"
  shows "\<exists>st'. controler_socket E now (h # ''END'' # a # b # e # d # r) st = Inr (True, st') \<and>
           dispatchers st' h = Some \<lparr>hostname = h, last_msg = now, online = True\<rparr> \<and>
           with_action ''STATUS'' (sent_since st st') = status_msgs (db st') h"
  using assms
  by (simp add: handle_end_def Let_def dispatcher_alive_unknown send_multipart_def sent_since_def
      with_action_append with_action_Cons with_action_Nil with_action_STATUS)

lemma start_ok_unknown:
  assumes "dispatchers st h = None" "py_int a = Some i"
  shows "\<exists>st'. controler_socket E now (h # ''START_OK'' # a # r) st = Inr (True, st') \<and>
           dispatchers st' h = Some \<lparr>hostname = h, last_msg = now, online = True\<rparr> \<and>
           with_action ''STATUS'' (sent_since st st') = status_msgs (db st') h"
  using assms
  by (cases "objects_get (db st) i")
     (simp_all add: handle_start_ok_def Let_def dispatcher_alive_unknown send_multipart_def
      sent_since_def with_action_append with_action_Cons with_action_Nil with_action_STATUS)

lemma hello_unknown:
  assumes "dispatchers st h = None" "py_int v = Some PROTOCOL_VERSION"
    "action = ''HELLO'' \<or> action = ''HELLO_RETRY''"
  shows "\<exists>st'. controler_socket E now (h # action # v # r) st = Inr (True, st') \<and>
           dispatchers st' h = Some \<lparr>hostname = h, last_msg = now, online = True\<rparr> \<and>
           sent_since st st' = [[h, ''HELLO_OK'']]"
  using assms
  by (auto simp: handle_hello_def Let_def send_multipart_def sent_since_def dom_def
      mark_alive_def alive_def SlaveDispatcher_init_def cancel_slave_dispatcher_jobs_def)

text \<open>
  C7, as the code has it. When the sender is not in the table of workers, a PING, a
  well-formed END and a well-formed START_OK register it online with \<open>last_msg = now\<close>
  and send it one STATUS message for every row that is RUNNING, a pipeline job and bound
  to it in the store as the handler leaves it. A HELLO or HELLO_RETRY of the master's
  version registers it online too, but the only message sent is HELLO_OK.
\<close>

theorem unknown_worker_is_registered:
  assumes "dispatchers st h = None"
  shows "((action = ''PING'' \<or>
           (action = ''END'' \<and>
              (\<exists>a b e d r i c. args = a # b # e # d # r \<and> py_int a = Some i \<and> py_int b = Some c)) \<or>
           (action = ''START_OK'' \<and> (\<exists>a r i. args = a # r \<and> py_int a = Some i))) \<longrightarrow>
          (\<exists>st'. controler_socket E now (h # action # args) st = Inr (True, st') \<and>
             dispatchers st' h = Some \<lparr>hostname = h, last_msg = now, online = True\<rparr> \<and>
             with_action ''STATUS'' (sent_since st st') = status_msgs (db st') h)) \<and>
         (((action = ''HELLO'' \<or> action = ''HELLO_RETRY'') \<and>
            (\<exists>v r. args = v # r \<and> py_int v = Some PROTOCOL_VERSION)) \<longrightarrow>
          (\<exists>st'. controler_socket E now (h # action # args) st = Inr (True, st') \<and>
             dispatchers st' h = Some \<lparr>hostname = h, last_msg = now, online = True\<rparr> \<and>
             sent_since st st' = [[h, ''HELLO_OK'']]))"
proof (intro conjI impI)
  assume "action = ''PING'' \<or>
           (action = ''END'' \<and>
              (\<exists>a b e d r i c. args = a # b # e # d # r \<and> py_int a = Some i \<and> py_int b = Some c)) \<or>
           (action = ''START_OK'' \<and> (\<exists>a r i. args = a # r \<and> py_int a = Some i))"
  then consider (ping) "action = ''PING''"
    | (end_msg) a b e d r i c where "action = ''END''" "args = a # b # e # d # r"
        "py_int a = Some i" "py_int b = Some c"
    | (start_ok) a r i where "action = ''START_OK''" "args = a # r" "py_int a = Some i"
    by blast
  then show "\<exists>st'. controler_socket E now (h # action # args) st = Inr (True, st') \<and>
             dispatchers st' h = Some \<lparr>hostname = h, last_msg = now, online = True\<rparr> \<and>
             with_action ''STATUS'' (sent_since st st') = status_msgs (db st') h"
  proof cases
    case ping
    show ?thesis unfolding ping by (rule ping_unknown [OF assms])
  next
    case end_msg
    show ?thesis unfolding end_msg(1,2) by (rule end_unknown [OF assms end_msg(3,4)])
  next
    case start_ok
    show ?thesis unfolding start_ok(1,2) by (rule start_ok_unknown [OF assms start_ok(3)])
  qed
next
  assume "(action = ''HELLO'' \<or> action = ''HELLO_RETRY'') \<and>
            (\<exists>v r. args = v # r \<and> py_int v = Some PROTOCOL_VERSION)"
  then obtain v r where a: "action = ''HELLO'' \<or> action = ''HELLO_RETRY''"
    and b: "args = v # r" and c: "py_int v = Some PROTOCOL_VERSION"
    by blast
  show "\<exists>st'. controler_socket E now (h # action # args) st = Inr (True, st') \<and>
             dispatchers st' h = Some \<lparr>hostname = h, last_msg = now, online = True\<rparr> \<and>
             sent_since st st' = [[h, ''HELLO_OK'']]"
    unfolding b by (rule hello_unknown [OF assms c a])
qed


theorem unknown_worker_is_registered_witness:
  "dispatchers (Command_init [sample_job 1 RUNNING]) ''w1'' = None \<and>
   (\<exists>st'. controler_socket sample_extern 5 [''w1'', ''PING'']
            (Command_init [sample_job 1 RUNNING]) = Inr (True, st') \<and>
          dispatchers st' ''w1'' = Some \<lparr>hostname = ''w1'', last_msg = 5, online = True\<rparr> \<and>
          with_action ''STATUS'' (sent_since (Command_init [sample_job 1 RUNNING]) st')
            = status_msgs (db st') ''w1'') \<and>
   py_int ''1'' = Some PROTOCOL_VERSION \<and>
   (\<exists>st'. controler_socket sample_extern 5 [''w1'', ''HELLO_RETRY'', ''1'']
            (Command_init [sample_job 1 RUNNING]) = Inr (True, st') \<and>
          dispatchers st' ''w1'' = Some \<lparr>hostname = ''w1'', last_msg = 5, online = True\<rparr> \<and>
          sent_since (Command_init [sample_job 1 RUNNING]) st' = [[''w1'', ''HELLO_OK'']])"
proof -
  have unknown: "dispatchers (Command_init [sample_job 1 RUNNING]) ''w1'' = None"
    by (simp add: Command_init_sel)
  have v: "py_int ''1'' = Some PROTOCOL_VERSION"
    by (simp add: py_int_1 PROTOCOL_VERSION_def)
  note ping = unknown_worker_is_registered [OF unknown, where action = "''PING''"
      and args = "[]" and E = sample_extern and now = 5, THEN conjunct1, rule_format]
  note retry = unknown_worker_is_registered [OF unknown, where action = "''HELLO_RETRY''"
      and args = "[''1'']" and E = sample_extern and now = 5, THEN conjunct2, rule_format]
  have a: "\<exists>st'. controler_socket sample_extern 5 [''w1'', ''PING'']
            (Command_init [sample_job 1 RUNNING]) = Inr (True, st') \<and>
          dispatchers st' ''w1'' = Some \<lparr>hostname = ''w1'', last_msg = 5, online = True\<rparr> \<and>
          with_action ''STATUS'' (sent_since (Command_init [sample_job 1 RUNNING]) st')
            = status_msgs (db st') ''w1''"
    by (rule ping) simp
  have b: "\<exists>st'. controler_socket sample_extern 5 [''w1'', ''HELLO_RETRY'', ''1'']
            (Command_init [sample_job 1 RUNNING]) = Inr (True, st') \<and>
          dispatchers st' ''w1'' = Some \<lparr>hostname = ''w1'', last_msg = 5, online = True\<rparr> \<and>
          sent_since (Command_init [sample_job 1 RUNNING]) st' = [[''w1'', ''HELLO_OK'']]"
    by (rule retry) (simp add: v)
  from unknown a v b show ?thesis by blast
qed

text \<open>The claim as it was written fails on HELLO_RETRY: the worker is not known, a
  RUNNING pipeline job is bound to it, and the only message sent is HELLO_OK.\<close>

theorem hello_retry_sends_no_status:
  "dispatchers (Command_init [sample_job 1 RUNNING]) ''w1'' = None \<and>
   filter_running (db (Command_init [sample_job 1 RUNNING])) ''w1'' = [sample_job 1 RUNNING] \<and>
   controler_socket sample_extern 5 [''w1'', ''HELLO_RETRY'', ''1'']
     (Command_init [sample_job 1 RUNNING]) =
   Inr (True, (Command_init [sample_job 1 RUNNING])\<lparr>
     dispatchers := [''w1'' \<mapsto> \<lparr>hostname = ''w1'', last_msg = 5, online = True\<rparr>],
     controler := [[''w1'', ''HELLO_OK'']]\<rparr>)"
  by (simp add: handle_hello_def py_int_1 PROTOCOL_VERSION_def Let_def send_multipart_def
      Command_init_def SlaveDispatcher_init_def mark_alive_def alive_def
      filter_running_def running_on_def sample_job_sel)

subsection \<open>A worker that went offline\<close>

text \<open>No handler changes the \<open>online\<close> flag of a worker that is in the table.\<close>

lemma mark_alive_online:
  "dispatchers st w = Some d \<Longrightarrow>
     \<exists>d'. dispatchers (mark_alive now h st) w = Some d' \<and> online d' = online d"
  by (auto simp: mark_alive_def alive_def split: option.splits)

lemma dispatcher_alive_online:
  "dispatchers st w = Some d \<Longrightarrow>
     \<exists>d'. dispatchers (dispatcher_alive now h st) w = Some d' \<and> online d' = online d"
  by (cases "dispatchers st h")
     (auto simp: dispatcher_alive_known dispatcher_alive_unknown)

lemma controler_socket_frames:
  assumes "controler_socket E now msg st = Inr r"
  obtains h action args where "msg = h # action # args"
proof (cases msg)
  case Nil
  with assms show ?thesis by simp
next
  case (Cons h rest)
  with assms that show ?thesis by (cases rest) simp_all
qed

lemma controler_socket_keeps_online:
  assumes "controler_socket E now msg st = Inr (ok, st')" and "dispatchers st w = Some d"
  shows "\<exists>d'. dispatchers st' w = Some d' \<and> online d' = online d"
proof -
  obtain h action args where msg: "msg = h # action # args"
    using assms(1) controler_socket_frames by blast
  have hello: "\<exists>d'. dispatchers (snd (handle_hello E now h action args st)) w = Some d' \<and>
                  online d' = online d"
    using assms(2)
    by (auto simp: handle_hello_def Let_def send_multipart_def dom_def
        split: list.splits option.splits
        intro!: mark_alive_online)
  have ping: "\<exists>d'. dispatchers (dispatcher_alive now h (send_multipart [h, ''PONG''] st)) w
                  = Some d' \<and> online d' = online d"
    using assms(2) by (intro dispatcher_alive_online) (simp add: send_multipart_def)
  have end_msg: "\<exists>d'. dispatchers (snd (handle_end E now h args st)) w = Some d' \<and>
                  online d' = online d"
    using assms(2)
    by (auto simp: handle_end_def Let_def send_multipart_def
        split: list.splits option.splits intro!: dispatcher_alive_online)
  have start: "\<exists>d'. dispatchers (snd (handle_start_ok E now h args st)) w = Some d' \<and>
                  online d' = online d"
    using assms(2)
    by (auto simp: handle_start_ok_def Let_def
        split: list.splits option.splits sum.splits intro!: dispatcher_alive_online)
  from assms(1) hello ping end_msg start assms(2) show ?thesis
    unfolding msg by (auto split: if_splits)
qed

text \<open>
  C4 at a concrete run. Worker w1 registers with a PING at time 1, the pass at time 40
  finds it silent for more than DISPATCHER_TIMEOUT and marks it offline, and its PING at
  time 100 is answered: \<open>last_msg\<close> becomes 100 and \<open>online\<close> stays False.
\<close>

theorem ping_leaves_worker_offline:
  "(case main_pass sample_extern 1 (Some [''w1'', ''PING'']) (Command_init []) of
      Inl e \<Rightarrow> None
    | Inr s1 \<Rightarrow>
        (case main_pass sample_extern 40 None s1 of
           Inl e \<Rightarrow> None
         | Inr s2 \<Rightarrow>
             (case main_pass sample_extern 100 (Some [''w1'', ''PING'']) s2 of
                Inl e \<Rightarrow> None
              | Inr s3 \<Rightarrow> dispatchers s3 ''w1'')))
   = Some \<lparr>hostname = ''w1'', last_msg = 100, online = False\<rparr>"
  by (simp add: main_pass_def gc_file_handlers_def Command_init_def check_dispatchers_def
      dispatcher_alive_known dispatcher_alive_unknown send_multipart_def
      DISPATCHER_TIMEOUT_def Let_def status_msgs_def filter_running_def)

subsection \<open>The log loop\<close>

lemma logging_socket_accepted:
  assumes "yaml_load E message = Some scanned"
    and "subscript scanned (YStr ''lvl'') = Inr lvl"
    and "subscript scanned (YStr ''msg'') = Inr m"
    and "CHR ''/'' \<notin> set level" and "CHR ''/'' \<notin> set name"
  shows "logging_socket E now [job_id, level, name, message] st =
           (case find_handler now job_id level name st of
              Inl e \<Rightarrow> Inl e
            | Inr None \<Rightarrow> Inr st
            | Inr (Some st1) \<Rightarrow>
                (case map_results E job_id level lvl m st1 of
                   Inl e \<Rightarrow> Inl e
                 | Inr None \<Rightarrow> Inr st1
                 | Inr (Some st2) \<Rightarrow> write_record now job_id message st2))"
  using assms by (simp add: logging_socket_def)






lemma find_handler_known:
  assumes "map_of (jobs st) job_id = Some h"
  shows "find_handler now job_id level name st =
           Inr (Some (if level \<noteq> current_level h
                      then st\<lparr>fs := fs st @
                                [Close (sub_log h),
                                 Mkdir (dirname (sub_filename (handler_output_dir h) level name)),
                                 Open (sub_filename (handler_output_dir h) level name)],
                              self_current_level := Some level,
                              jobs := AList.update job_id
                                (h\<lparr>sub_log := sub_filename (handler_output_dir h) level name\<rparr>)
                                (jobs st)\<rparr>
                      else st))"
  using assms by (simp add: find_handler_def Let_def)

lemma logging_socket_known_plain:
  assumes "map_of (jobs st) job_id = Some h"
    and "yaml_load E message = Some scanned"
    and "subscript scanned (YStr ''lvl'') = Inr lvl"
    and "subscript scanned (YStr ''msg'') = Inr m"
    and "CHR ''/'' \<notin> set level" and "CHR ''/'' \<notin> set name"
    and "lvl \<noteq> YStr ''results''"
  shows "logging_socket E now [job_id, level, name, message] st =
           Inr (st\<lparr>fs := fs st @ rotation level name h @
                          handler_write (rotated level name h) (''- '' @ message),
                  self_current_level :=
                    (if level \<noteq> current_level h then Some level else self_current_level st),
                  jobs := AList.update job_id ((rotated level name h)\<lparr>last_usage := now\<rparr>)
                            (jobs st)\<rparr>)"
proof -
  note eq = logging_socket_accepted [OF assms(2-6), of now job_id st]
  show ?thesis
    unfolding eq using assms(1,7)
    by (simp add: find_handler_known [OF assms(1)] map_results_def write_record_def
        rotation_def rotated_def update_conv')
qed

lemma logging_socket_known_results_gone:
  assumes "map_of (jobs st) job_id = Some h"
    and "yaml_load E message = Some scanned"
    and "subscript scanned (YStr ''lvl'') = Inr (YStr ''results'')"
    and "subscript scanned (YStr ''msg'') = Inr m"
    and "CHR ''/'' \<notin> set level" and "CHR ''/'' \<notin> set name"
    and "objects_get_str (db st) job_id = Inl DoesNotExist"
  shows "logging_socket E now [job_id, level, name, message] st =
           Inr (if level \<noteq> current_level h
                then st\<lparr>fs := fs st @ rotation level name h,
                        self_current_level := Some level,
                        jobs := AList.update job_id (rotated level name h) (jobs st)\<rparr>
                else st)"
proof -
  note eq = logging_socket_accepted [OF assms(2-6), of now job_id st]
  show ?thesis
    unfolding eq using assms(1,7)
    by (simp add: find_handler_known [OF assms(1)] map_results_def rotation_def rotated_def)
qed


lemma written_append: "written (xs @ ys) = written xs @ written ys"
  by (induction xs rule: written.induct) simp_all

lemma written_rotation: "written (rotation level name h) = []"
  by (simp add: rotation_def)

lemma written_handler_write:
  "written (handler_write h msg) =
     [(output_yaml h, msg), (output_yaml h, [CHR 0x0A]), (sub_log h, msg), (sub_log h, [CHR 0x0A])]"
  by (simp add: handler_write_def)

lemma sub_filename_12: "sub_filename ''/o'' ''1.2'' ''foo'' = ''/o/pipeline/1/1.2-foo.yaml''"
  by (simp add: sub_filename_def path_join_def split_dot_0_def)

lemma sub_filename_13: "sub_filename ''/o'' ''1.3'' ''bar'' = ''/o/pipeline/1/1.3-bar.yaml''"
  by (simp add: sub_filename_def path_join_def split_dot_0_def)

lemma dirname_12: "dirname ''/o/pipeline/1/1.2-foo.yaml'' = ''/o/pipeline/1''"
  by (simp add: dirname_def)

lemma dirname_13: "dirname ''/o/pipeline/1/1.3-bar.yaml'' = ''/o/pipeline/1''"
  by (simp add: dirname_def)

lemma sample_load_info:
  "yaml_load sample_extern ''{lvl: info, msg: a}'' =
     Some (YMap [(YStr ''lvl'', YStr ''info''), (YStr ''msg'', YStr ''a'')])"
  by (simp add: sample_extern_def sample_load_def)

lemma sample_load_results:
  "yaml_load sample_extern ''{lvl: results, msg: a}'' =
     Some (YMap [(YStr ''lvl'', YStr ''results''), (YStr ''msg'', YStr ''a'')])"
  by (simp add: sample_extern_def sample_load_def)

lemma first_frame:
  "logging_socket sample_extern 0 [''1'', ''1.2'', ''foo'', ''{lvl: info, msg: a}'']
     (Command_init [sample_job 1 RUNNING]) =
   Inr ((Command_init [sample_job 1 RUNNING])\<lparr>
          fs := [Mkdir ''/o/pipeline/1'', Open ''/o/output.yaml'',
                 Open ''/o/pipeline/1/1.2-foo.yaml'',
                 Write ''/o/output.yaml'' ''- {lvl: info, msg: a}'',
                 Write ''/o/output.yaml'' [CHR 0x0A],
                 Write ''/o/pipeline/1/1.2-foo.yaml'' ''- {lvl: info, msg: a}'',
                 Write ''/o/pipeline/1/1.2-foo.yaml'' [CHR 0x0A]],
          jobs := [(''1'', sample_handler)]\<rparr>)"
  by (simp add: logging_socket_def sample_load_info find_handler_def Command_init_sel
      objects_get_str_def py_int_1 objects_get_def sample_job_sel JobHandler_init_def
      sub_filename_12 dirname_12 path_join_def map_results_def write_record_def
      handler_write_def sample_handler_def Let_def)


lemma sample_subscripts:
  "subscript (YMap [(YStr ''lvl'', YStr l), (YStr ''msg'', YStr ''a'')]) (YStr ''lvl'') = Inr (YStr l)"
  "subscript (YMap [(YStr ''lvl'', YStr l), (YStr ''msg'', YStr ''a'')]) (YStr ''msg'') = Inr (YStr ''a'')"
  by simp_all

text \<open>
  C10. With a handler for the job in the table and an accepted frame (four parts, a
  record with \<open>lvl\<close> and \<open>msg\<close>, no slash in level or name): a record whose \<open>lvl\<close> is not
  "results" is written, with its newline, to \<^verbatim>\<open>output.yaml\<close> and to the sub log, and the
  pass gives the same result whatever rows the store holds, so it reads none; a
  "results" record of a job the store no longer has ends the pass with nothing written.
\<close>

theorem known_handler_skips_the_store:
  assumes "map_of (jobs st) job_id = Some h"
    and "yaml_load E message = Some scanned"
    and "subscript scanned (YStr ''lvl'') = Inr lvl"
    and "subscript scanned (YStr ''msg'') = Inr m"
    and "CHR ''/'' \<notin> set level" and "CHR ''/'' \<notin> set name"
  shows "(lvl \<noteq> YStr ''results'' \<longrightarrow>
           (\<exists>st'. logging_socket E now [job_id, level, name, message] st = Inr st' \<and>
              written (drop (length (fs st)) (fs st')) =
                (let sub = (if level \<noteq> current_level h
                            then sub_filename (handler_output_dir h) level name else sub_log h)
                 in [(output_yaml h, ''- '' @ message), (output_yaml h, [CHR 0x0A]),
                     (sub, ''- '' @ message), (sub, [CHR 0x0A])]) \<and>
              (\<forall>rows. logging_socket E now [job_id, level, name, message] (st\<lparr>db := rows\<rparr>)
                        = Inr (st'\<lparr>db := rows\<rparr>)))) \<and>
         (lvl = YStr ''results'' \<and> objects_get_str (db st) job_id = Inl DoesNotExist \<longrightarrow>
           (\<exists>st'. logging_socket E now [job_id, level, name, message] st = Inr st' \<and>
              written (drop (length (fs st)) (fs st')) = []))"
proof (intro conjI impI)
  assume plain: "lvl \<noteq> YStr ''results''"
  let ?st' = "st\<lparr>fs := fs st @ rotation level name h @
                          handler_write (rotated level name h) (''- '' @ message),
                  self_current_level :=
                    (if level \<noteq> current_level h then Some level else self_current_level st),
                  jobs := AList.update job_id ((rotated level name h)\<lparr>last_usage := now\<rparr>)
                            (jobs st)\<rparr>"
  have run: "logging_socket E now [job_id, level, name, message] st = Inr ?st'"
    by (rule logging_socket_known_plain [OF assms plain])
  have wr: "written (drop (length (fs st)) (fs ?st')) =
                (let sub = (if level \<noteq> current_level h
                            then sub_filename (handler_output_dir h) level name else sub_log h)
                 in [(output_yaml h, ''- '' @ message), (output_yaml h, [CHR 0x0A]),
                     (sub, ''- '' @ message), (sub, [CHR 0x0A])])"
    by (simp add: written_append written_rotation written_handler_write rotated_def Let_def)
  have indep: "logging_socket E now [job_id, level, name, message] (st\<lparr>db := rows\<rparr>)
                 = Inr (?st'\<lparr>db := rows\<rparr>)" for rows
    using logging_socket_known_plain [of "st\<lparr>db := rows\<rparr>" job_id h E message scanned lvl m
        level name now] assms plain
    by simp
  show "\<exists>st'. logging_socket E now [job_id, level, name, message] st = Inr st' \<and>
              written (drop (length (fs st)) (fs st')) =
                (let sub = (if level \<noteq> current_level h
                            then sub_filename (handler_output_dir h) level name else sub_log h)
                 in [(output_yaml h, ''- '' @ message), (output_yaml h, [CHR 0x0A]),
                     (sub, ''- '' @ message), (sub, [CHR 0x0A])]) \<and>
              (\<forall>rows. logging_socket E now [job_id, level, name, message] (st\<lparr>db := rows\<rparr>)
                        = Inr (st'\<lparr>db := rows\<rparr>))"
    using run wr indep by blast
next
  assume gone: "lvl = YStr ''results'' \<and> objects_get_str (db st) job_id = Inl DoesNotExist"
  have run: "logging_socket E now [job_id, level, name, message] st =
           Inr (if level \<noteq> current_level h
                then st\<lparr>fs := fs st @ rotation level name h,
                        self_current_level := Some level,
                        jobs := AList.update job_id (rotated level name h) (jobs st)\<rparr>
                else st)"
    using logging_socket_known_results_gone [OF assms(1,2) _ assms(4,5,6)] assms(3) gone
    by simp
  show "\<exists>st'. logging_socket E now [job_id, level, name, message] st = Inr st' \<and>
              written (drop (length (fs st)) (fs st')) = []"
    unfolding run by (simp add: written_rotation)
qed

theorem known_handler_skips_the_store_witness:
  "map_of (jobs sample_logging) ''1'' = Some sample_handler \<and>
   db sample_logging = [] \<and>
   yaml_load sample_extern ''{lvl: info, msg: a}''
     = Some (YMap [(YStr ''lvl'', YStr ''info''), (YStr ''msg'', YStr ''a'')]) \<and>
   yaml_load sample_extern ''{lvl: results, msg: a}''
     = Some (YMap [(YStr ''lvl'', YStr ''results''), (YStr ''msg'', YStr ''a'')]) \<and>
   CHR ''/'' \<notin> set ''1.3'' \<and> CHR ''/'' \<notin> set ''bar'' \<and>
   YStr ''info'' \<noteq> YStr ''results'' \<and>
   objects_get_str (db sample_logging) ''1'' = Inl DoesNotExist \<and>
   (\<exists>st'. logging_socket sample_extern 9 [''1'', ''1.3'', ''bar'', ''{lvl: info, msg: a}'']
            sample_logging = Inr st' \<and>
          written (drop (length (fs sample_logging)) (fs st')) =
            [(''/o/output.yaml'', ''- {lvl: info, msg: a}''), (''/o/output.yaml'', [CHR 0x0A]),
             (''/o/pipeline/1/1.3-bar.yaml'', ''- {lvl: info, msg: a}''),
             (''/o/pipeline/1/1.3-bar.yaml'', [CHR 0x0A])]) \<and>
   (\<exists>st'. logging_socket sample_extern 9 [''1'', ''1.3'', ''bar'', ''{lvl: results, msg: a}'']
            sample_logging = Inr st' \<and>
          written (drop (length (fs sample_logging)) (fs st')) = [])"
proof -
  have h: "map_of (jobs sample_logging) ''1'' = Some sample_handler"
    by (simp add: sample_logging_def)
  have rows: "db sample_logging = []"
    by (simp add: sample_logging_def Command_init_def)
  have clean: "CHR ''/'' \<notin> set ''1.3''" "CHR ''/'' \<notin> set ''bar''" by simp_all
  have plain: "YStr ''info'' \<noteq> YStr ''results''" by simp
  have gone: "objects_get_str (db sample_logging) ''1'' = Inl DoesNotExist"
    by (simp add: rows objects_get_str_def py_int_1 objects_get_def)
  have level: "''1.3'' \<noteq> current_level sample_handler"
    by (simp add: sample_handler_def)
  have dir: "handler_output_dir sample_handler = ''/o''"
    "output_yaml sample_handler = ''/o/output.yaml''"
    by (simp_all add: sample_handler_def)
  from known_handler_skips_the_store [OF h sample_load_info sample_subscripts clean,
      THEN conjunct1, rule_format, OF plain, of 9]
  have a: "\<exists>st'. logging_socket sample_extern 9 [''1'', ''1.3'', ''bar'', ''{lvl: info, msg: a}'']
            sample_logging = Inr st' \<and>
          written (drop (length (fs sample_logging)) (fs st')) =
            [(''/o/output.yaml'', ''- {lvl: info, msg: a}''), (''/o/output.yaml'', [CHR 0x0A]),
             (''/o/pipeline/1/1.3-bar.yaml'', ''- {lvl: info, msg: a}''),
             (''/o/pipeline/1/1.3-bar.yaml'', [CHR 0x0A])]"
    using level by (auto simp: dir sub_filename_13 Let_def)
  from known_handler_skips_the_store [OF h sample_load_results sample_subscripts clean,
      THEN conjunct2, rule_format, of 9] gone
  have b: "\<exists>st'. logging_socket sample_extern 9 [''1'', ''1.3'', ''bar'', ''{lvl: results, msg: a}'']
            sample_logging = Inr st' \<and>
          written (drop (length (fs sample_logging)) (fs st')) = []"
    by simp
  from h rows sample_load_info sample_load_results clean plain gone a b
  show ?thesis by blast
qed

subsection \<open>Frames with a slash in level or name\<close>











subsection \<open>The sub log's level is never recorded on the handler\<close>

text \<open>No pass of the log loop changes the \<open>current_level\<close> of a handler.\<close>

lemma logging_socket_keeps_current_level:
  assumes "logging_socket E now msg st = Inr st'" and "map_of (jobs st) k = Some h"
  shows "\<exists>h'. map_of (jobs st') k = Some h' \<and> current_level h' = current_level h"
  using assms
  by (auto simp: logging_socket_def find_handler_def map_results_def write_record_def Let_def
      update_conv'
      split: list.splits option.splits sum.splits if_splits)


text \<open>
  C6 at a concrete run. Job 1 logs at level 1.2, then at level 1.3, then at level 1.2
  again. After the second record the handler's \<open>current_level\<close> is still 1.2 (the new
  level went to \<open>self_current_level\<close>, an attribute of the Command object) while its sub
  log is \<^verbatim>\<open>1.3-bar.yaml\<close>; so the third record, of level 1.2, is taken for the current
  level and written to \<^verbatim>\<open>1.3-bar.yaml\<close>.
\<close>

theorem level_is_never_recorded:
  "(case logging_socket sample_extern 0 [''1'', ''1.2'', ''foo'', ''{lvl: info, msg: a}'']
          (Command_init [sample_job 1 RUNNING]) of
      Inl e \<Rightarrow> None
    | Inr s1 \<Rightarrow>
        (case logging_socket sample_extern 1 [''1'', ''1.3'', ''bar'', ''{lvl: info, msg: a}''] s1 of
           Inl e \<Rightarrow> None
         | Inr s2 \<Rightarrow>
             (case logging_socket sample_extern 2
                     [''1'', ''1.2'', ''foo'', ''{lvl: info, msg: a}''] s2 of
                Inl e \<Rightarrow> None
              | Inr s3 \<Rightarrow>
                  Some (map_option current_level (map_of (jobs s2) ''1''),
                        map_option sub_log (map_of (jobs s2) ''1''),
                        self_current_level s2,
                        drop (length (fs s2)) (fs s3)))))
   = Some (Some ''1.2'', Some ''/o/pipeline/1/1.3-bar.yaml'', Some ''1.3'',
           [Write ''/o/output.yaml'' ''- {lvl: info, msg: a}'',
            Write ''/o/output.yaml'' [CHR 0x0A],
            Write ''/o/pipeline/1/1.3-bar.yaml'' ''- {lvl: info, msg: a}'',
            Write ''/o/pipeline/1/1.3-bar.yaml'' [CHR 0x0A]])"
  unfolding first_frame
  by (simp add: logging_socket_def sample_load_info find_handler_def
      Command_init_sel sub_filename_13 dirname_13 map_results_def write_record_def
      handler_write_def sample_handler_def Let_def)

subsection \<open>The garbage collection reads a table nothing fills\<close>

text \<open>Neither loop puts a handler into \<open>self_jobs\<close>, so it stays empty, and a pass of
  the main loop leaves the log loop's table as it is.\<close>

lemma gc_file_handlers_idle: "self_jobs st = [] \<Longrightarrow> gc_file_handlers now st = st"
  by (simp add: gc_file_handlers_def)

lemma logging_socket_self_jobs:
  "logging_socket E now msg st = Inr st' \<Longrightarrow> self_jobs st' = self_jobs st"
  by (auto simp: logging_socket_def find_handler_def map_results_def write_record_def Let_def
      split: list.splits option.splits sum.splits if_splits)

lemma mark_alive_self_jobs [simp]: "self_jobs (mark_alive now h st) = self_jobs st"
  by (simp add: mark_alive_def split: option.splits)

lemma end_update_self_jobs [simp]: "self_jobs (end_update E j s m d st) = self_jobs st"
  by (simp add: end_update_def Let_def split: sum.splits)

lemma controler_socket_self_jobs:
  assumes "controler_socket E now msg st = Inr (ok, st')"
  shows "self_jobs st' = self_jobs st"
proof -
  obtain h action args where msg: "msg = h # action # args"
    using assms controler_socket_frames by blast
  show ?thesis
    using assms unfolding msg
    by (auto simp: handle_hello_def handle_end_def handle_start_ok_def Let_def
        send_multipart_def cancel_slave_dispatcher_jobs_def
        split: if_splits list.splits option.splits sum.splits)
qed

lemma mark_alive_jobs [simp]: "jobs (mark_alive now h st) = jobs st"
  by (simp add: mark_alive_def split: option.splits)

lemma end_update_jobs [simp]: "jobs (end_update E j s m d st) = jobs st"
  by (simp add: end_update_def Let_def split: sum.splits)

lemma controler_socket_jobs:
  assumes "controler_socket E now msg st = Inr (ok, st')"
  shows "jobs st' = jobs st"
proof -
  obtain h action args where msg: "msg = h # action # args"
    using assms controler_socket_frames by blast
  show ?thesis
    using assms unfolding msg
    by (auto simp: handle_hello_def handle_end_def handle_start_ok_def Let_def
        send_multipart_def cancel_slave_dispatcher_jobs_def
        split: if_splits list.splits option.splits sum.splits)
qed

lemma main_pass_never_collects:
  assumes "self_jobs st = []" and "main_pass E now received st = Inr st'"
  shows "self_jobs st' = [] \<and> jobs st' = jobs st"
proof (cases received)
  case None
  with assms show ?thesis
    by (auto simp: main_pass_def gc_file_handlers_idle check_dispatchers_def)
next
  case (Some msg)
  with assms obtain ok st1 where run: "controler_socket E now msg st = Inr (ok, st1)"
    and st': "st' = (if ok then check_dispatchers now st1 else st1)"
    by (auto simp: main_pass_def gc_file_handlers_idle split: sum.splits if_splits)
  from controler_socket_self_jobs [OF run] controler_socket_jobs [OF run] assms(1) st'
  show ?thesis by (simp add: check_dispatchers_def)
qed

text \<open>
  C5 at a concrete run. The log loop creates the handler of job 1 at time 0, in its local
  table; \<open>self_jobs\<close>, the table the main loop collects, is empty. The pass of the main
  loop at time 1000 closes nothing: the handler is still in the table, and no event is
  added to the file trace.
\<close>

theorem idle_handler_survives_collection:
  "(case logging_socket sample_extern 0 [''1'', ''1.2'', ''foo'', ''{lvl: info, msg: a}'']
          (Command_init [sample_job 1 RUNNING]) of
      Inl e \<Rightarrow> None
    | Inr s1 \<Rightarrow>
        (case main_pass sample_extern 1000 None s1 of
           Inl e \<Rightarrow> None
         | Inr s2 \<Rightarrow> Some (self_jobs s1, jobs s2, drop (length (fs s1)) (fs s2))))
   = Some ([], [(''1'', sample_handler)], [])"
  by (simp add: first_frame main_pass_def gc_file_handlers_def check_dispatchers_def
      Command_init_sel)

subsection \<open>The definition sent to the worker\<close>

text \<open>The stand-in serialiser loads what it dumps.\<close>

lemma read_unary_unary [simp]: "read_unary (unary n @ r) = Some (n, r)"
  by (simp add: read_unary_def unary_def dropWhile_append3 takeWhile_append2
      takeWhile_tail)

lemma unflat_flat [simp]: "unflat (flat kvs) = Some kvs"
  by (induction kvs) auto











end
